theory Spec2Isabelle
  imports Main
begin

section \<open>The application shell of FeelUOwn (feeluown/app.py)\<close>

text \<open>
  The class \<open>App\<close> wires a player, a request client and a widget tree together. Its
  methods compute little; what they do is call collaborators in some order. The
  embedding therefore keeps, in the state of the shell, the ordered list of the calls it
  has made on its collaborators, and every method is a function from the state before
  to the state after (with the result, or the exception that leaves the method).
\<close>

subsection \<open>Exceptions\<close>

text \<open>
  Both handlers of the file are \<open>except Exception\<close>. Such a handler catches the
  instances of \<open>Exception\<close> and of its subclasses; an exception whose class derives from
  \<open>BaseException\<close> only (\<open>KeyboardInterrupt\<close>, \<open>SystemExit\<close>, \<open>GeneratorExit\<close>, and
  \<open>asyncio.CancelledError\<close> since Python 3.8) passes it. The string is the rest of the
  exception (its class name and arguments), so that two exceptions can be told apart.
\<close>

datatype exn = Exception string | BaseException string

fun isinstance_Exception :: "exn \<Rightarrow> bool" where
  "isinstance_Exception (Exception _) = True"
| "isinstance_Exception (BaseException _) = False"

subsection \<open>The state of the shell\<close>

datatype standard_pixmap = SP_MediaPause | SP_MediaPlay

text \<open>
  One constructor for each call the methods below make on a collaborator:
  \<open>ui.magicbox.show_msg(text, timeout)\<close> (\<open>None\<close> when the call leaves the timeout to
  its default), the four calls on \<open>ui.top_panel.pc_panel\<close> and its progress slider,
  \<open>pp_btn.setIcon(self.style().standardIcon(...))\<close>,
  \<open>QApplication.instance().setStyleSheet(s)\<close>, \<open>player.stop()\<close>, \<open>player.shutdown()\<close>
  and \<open>QApplication.quit()\<close>.
\<close>

datatype event =
    Show_msg string "int option"
  | On_position_changed int
  | Update_state int
  | On_duration_changed int
  | Set_duration int
  | SetIcon standard_pixmap
  | SetStyleSheet string
  | Player_stop
  | Player_shutdown
  | QApplication_quit

text \<open>
  The attributes of the shell that the methods read or could write: the width of the
  window (\<open>self.width()\<close>), \<open>self.player_pixmap\<close> (set to \<open>None\<close> by the constructor),
  and the calls made so far, oldest first.
\<close>

record shell =
  width :: int
  player_pixmap :: "string option"
  events :: "event list"

definition emit :: "event \<Rightarrow> shell \<Rightarrow> shell" where
  "emit ev sh = sh\<lparr>events := events sh @ [ev]\<rparr>"

subsection \<open>closeEvent\<close>

text \<open>
  \<^verbatim>\<open>
  def closeEvent(self, event):
      try:
          self.player.stop()
          self.player.shutdown()
      except Exception as e:
          pass
      QApplication.quit()
  \<close>
  The argument \<open>event\<close> is not used. What the two calls on the player do is the
  player's business; the model takes, for each, whether it returns (\<open>None\<close>) or
  raises (\<open>Some e\<close>).
\<close>

record player =
  stop :: "exn option"
  shutdown :: "exn option"

text \<open>The body of the \<open>try\<close>: the second call is reached only when the first returns.\<close>

definition teardown :: "player \<Rightarrow> shell \<Rightarrow> exn option \<times> shell" where
  "teardown p sh =
     (let sh1 = emit Player_stop sh in
      case stop p of
        Some e \<Rightarrow> (Some e, sh1)
      | None \<Rightarrow>
          (let sh2 = emit Player_shutdown sh1 in
           case shutdown p of
             Some e \<Rightarrow> (Some e, sh2)
           | None \<Rightarrow> (None, sh2)))"

definition closeEvent :: "player \<Rightarrow> shell \<Rightarrow> (exn + unit) \<times> shell" where
  "closeEvent p sh =
     (case teardown p sh of
        (Some e, sh') \<Rightarrow>
          if isinstance_Exception e then (Inr (), emit QApplication_quit sh')
          else (Inl e, sh')
      | (None, sh') \<Rightarrow> (Inr (), emit QApplication_quit sh'))"

subsection \<open>Strings and paths\<close>

text \<open>
  A Python \<open>str\<close> is a sequence of code points, a \<open>string\<close> here a sequence of bytes.
  The operations below only look for the ASCII characters \<open>/\<close> and \<open>.\<close> and compare
  with ASCII literals, which UTF-8 never places inside the encoding of another
  character, so they agree on both readings. The path functions are those of
  \<open>posixpath\<close>.
\<close>

definition startswith :: "string \<Rightarrow> string \<Rightarrow> bool" where
  "startswith s prefix = (take (length prefix) s = prefix)"

definition endswith :: "string \<Rightarrow> string \<Rightarrow> bool" where
  "endswith s suffix =
     (length suffix \<le> length s \<and> drop (length s - length suffix) s = suffix)"

text \<open>\<open>os.path.join(a, b)\<close>: an absolute \<open>b\<close> replaces \<open>a\<close>.\<close>

definition os_path_join :: "string \<Rightarrow> string \<Rightarrow> string" where
  "os_path_join a b =
     (if startswith b ''/'' then b
      else if a = [] \<or> endswith a ''/'' then a @ b
      else a @ ''/'' @ b)"

text \<open>\<open>os.path.basename(p)\<close> is \<open>p[p.rfind('/') + 1:]\<close>.\<close>

definition os_path_basename :: "string \<Rightarrow> string" where
  "os_path_basename p = rev (takeWhile (\<lambda>c. c \<noteq> CHR ''/'') (rev p))"

text \<open>
  \<open>os.path.dirname(p)\<close>: the head \<open>p[:p.rfind('/') + 1]\<close>, with its trailing slashes
  stripped unless it consists of slashes only.
\<close>

definition os_path_dirname :: "string \<Rightarrow> string" where
  "os_path_dirname p =
     (let head = rev (dropWhile (\<lambda>c. c \<noteq> CHR ''/'') (rev p)) in
      if head \<noteq> [] \<and> head \<noteq> replicate (length head) (CHR ''/'')
      then rev (dropWhile (\<lambda>c. c = CHR ''/'') (rev head))
      else head)"

text \<open>\<open>s.rsplit('.', 1)[0]\<close>: what stands before the last dot, or \<open>s\<close> when it has none.\<close>

definition rsplit_dot_head :: "string \<Rightarrow> string" where
  "rsplit_dot_head s =
     (if CHR ''.'' \<in> set s then rev (tl (dropWhile (\<lambda>c. c \<noteq> CHR ''.'') (rev s))) else s)"

text \<open>\<open>'{}'.format(n)\<close> for an \<open>int\<close>: its decimal digits, with a sign when negative.\<close>

fun str_nat :: "nat \<Rightarrow> string" where
  "str_nat n =
     (if n < 10 then [char_of (48 + n)]
      else str_nat (n div 10) @ [char_of (48 + n mod 10)])"

definition str_int :: "int \<Rightarrow> string" where
  "str_int i = (if i < 0 then ''-'' @ str_nat (nat (- i)) else str_nat (nat i))"

subsection \<open>create\_action\<close>

text \<open>
  \<^verbatim>\<open>
  @contextmanager
  def create_action(self, s):
      show_msg = self.ui.magicbox.show_msg

      class Action(object):
          def set_progress(self, value):
              value = int(value * 100)
              show_msg(s + '...{}%'.format(value), timeout=-1)

          def failed(self):
              show_msg(s + '...failed', timeout=-1)

      show_msg(s + '...', timeout=-1)  # doing
      try:
          yield Action()
      except Exception:
          show_msg(s + '...error')  # error
          raise
      else:
          show_msg(s + '...done')  # done
  \<close>
  The magic box belongs to the widget tree, outside this file: \<open>show_msg\<close> is the call
  recorded. The handle closes over the label, so the model's handle carries it.
\<close>

definition show_msg :: "string \<Rightarrow> int option \<Rightarrow> shell \<Rightarrow> shell" where
  "show_msg text timeout sh = emit (Show_msg text timeout) sh"

datatype Action = Action string

text \<open>
  \<open>set_progress\<close> takes a fraction, usually a float; floating point is not modelled, and
  the second argument here is the integer \<open>int(value * 100)\<close> the method computes first.
\<close>

fun set_progress :: "Action \<Rightarrow> int \<Rightarrow> shell \<Rightarrow> shell" where
  "set_progress (Action s) percent sh =
     show_msg (s @ ''...'' @ str_int percent @ ''%'') (Some (- 1)) sh"

fun failed :: "Action \<Rightarrow> shell \<Rightarrow> shell" where
  "failed (Action s) sh = show_msg (s @ ''...failed'') (Some (- 1)) sh"

text \<open>
  \<open>with app.create_action(s) as action: body\<close>. The decorator runs the generator up to
  its \<open>yield\<close> on entry, hands the yielded handle to the block, and on exit either
  resumes the generator after the \<open>yield\<close> (the block completed: the \<open>else\<close> branch
  runs) or raises the block's exception at the \<open>yield\<close> (the handler runs if it
  matches; its bare \<open>raise\<close> re-raises the same exception, which then leaves the
  \<open>with\<close> statement). The block is any code that is given the handle: it may change
  the shell's state, and ends with a value or with an exception.
\<close>

definition create_action ::
  "string \<Rightarrow> (Action \<Rightarrow> shell \<Rightarrow> (exn + 'a) \<times> shell) \<Rightarrow> shell \<Rightarrow> (exn + 'a) \<times> shell" where
  "create_action s body sh =
     (let sh1 = show_msg (s @ ''...'') (Some (- 1)) sh in
      case body (Action s) sh1 of
        (Inl e, sh2) \<Rightarrow>
          if isinstance_Exception e
          then (Inl e, show_msg (s @ ''...error'') None sh2)
          else (Inl e, sh2)
      | (Inr v, sh2) \<Rightarrow> (Inr v, show_msg (s @ ''...done'') None sh2))"

subsection \<open>The handlers of the player's signals\<close>

text \<open>
  \<^verbatim>\<open>
  def _on_player_position_changed(self, ms):
      self.ui.top_panel.pc_panel.on_position_changed(ms*1000)
      self.ui.top_panel.pc_panel.progress_slider.update_state(ms*1000)

  def _on_player_duration_changed(self, ms):
      self.ui.top_panel.pc_panel.on_duration_changed(ms*1000)
      self.ui.top_panel.pc_panel.progress_slider.set_duration(ms*1000)
  \<close>
  The argument is a Python \<open>int\<close>, which is unbounded. (A name cannot begin with an
  underscore here; the handlers drop theirs.)
\<close>

definition on_player_position_changed :: "int \<Rightarrow> shell \<Rightarrow> shell" where
  "on_player_position_changed ms sh =
     emit (Update_state (ms * 1000)) (emit (On_position_changed (ms * 1000)) sh)"

definition on_player_duration_changed :: "int \<Rightarrow> shell \<Rightarrow> shell" where
  "on_player_duration_changed ms sh =
     emit (Set_duration (ms * 1000)) (emit (On_duration_changed (ms * 1000)) sh)"

text \<open>
  \<^verbatim>\<open>
  def _on_player_status_changed(self, state):
      pp_btn = self.ui.top_panel.pc_panel.pp_btn
      if use_mac_theme():
          return
      if state == PlayerState.playing:
          pp_btn.setIcon(self.style().standardIcon(QStyle.SP_MediaPause))
      else:
          pp_btn.setIcon(self.style().standardIcon(QStyle.SP_MediaPlay))
  \<close>
  \<open>use_mac_theme\<close> (feeluown/helpers.py) and the enumeration \<open>PlayerState\<close> (fuocore)
  are not in this file: the value the former returns and the member \<open>playing\<close> of the
  latter are parameters, and a state is a value of any type.
\<close>

definition on_player_status_changed :: "bool \<Rightarrow> 'state \<Rightarrow> 'state \<Rightarrow> shell \<Rightarrow> shell" where
  "on_player_status_changed use_mac_theme playing state sh =
     (if use_mac_theme then sh
      else if state = playing then emit (SetIcon SP_MediaPause) sh
      else emit (SetIcon SP_MediaPlay) sh)"

subsection \<open>load\_qss\<close>

text \<open>
  \<^verbatim>\<open>
  def load_qss(self):
      if not use_mac_theme():
          return
      filepath = os.path.abspath(__file__)
      dirname = os.path.dirname(filepath)
      qssfilepath = os.path.join(dirname, 'mac.qss')
      with open(qssfilepath) as f:
          s = f.read()
          QApplication.instance().setStyleSheet(s)
  \<close>
  Parameters: what \<open>use_mac_theme()\<close> returns, the absolute path of the module (the
  value of \<open>os.path.abspath(__file__)\<close>), and the text files that can be opened, by
  path. \<open>open\<close> raises when there is none.
\<close>

definition load_qss ::
  "bool \<Rightarrow> string \<Rightarrow> (string \<Rightarrow> string option) \<Rightarrow> shell \<Rightarrow> (exn + unit) \<times> shell" where
  "load_qss use_mac_theme filepath files sh =
     (if \<not> use_mac_theme then (Inr (), sh)
      else
        (let dirname = os_path_dirname filepath;
             qssfilepath = os_path_join dirname ''mac.qss''
         in case files qssfilepath of
              None \<Rightarrow> (Inl (Exception ''FileNotFoundError''), sh)
            | Some s \<Rightarrow> (Inr (), emit (SetStyleSheet s) sh)))"

subsection \<open>scan\_fuo\_files\<close>

text \<open>
  \<^verbatim>\<open>
  def scan_fuo_files(self):
      fuo_files = config.FUO_FILES
      f_list = []
      for filepath in fuo_files:
          if not os.path.exists(filepath):
              continue
          if os.path.isdir(filepath):
              for fname in os.listdir(filepath):
                  fpath = os.path.join(filepath, fname)
                  if os.path.isfile(fpath):
                      f_list.append(fpath)
          else:
              f_list.append(filepath)

      for fpath in f_list:
          basename = os.path.basename(fpath)
          if not basename.endswith('.fuo'):
              continue
          name = basename.rsplit('.', 1)[0]
  \<close>
  The file system is what the four calls of \<open>os\<close> answer for a path: nothing there, a
  regular file, a directory with its entries in the order \<open>listdir\<close> gives them, a
  directory that may not be listed (\<open>listdir\<close> raises), or something else (a device, a
  socket).
\<close>

datatype node = File | Dir "string list" | Unreadable_dir | Special

type_synonym filesystem = "string \<Rightarrow> node option"

definition os_path_exists :: "filesystem \<Rightarrow> string \<Rightarrow> bool" where
  "os_path_exists fs p = (fs p \<noteq> None)"

definition os_path_isdir :: "filesystem \<Rightarrow> string \<Rightarrow> bool" where
  "os_path_isdir fs p =
     (case fs p of Some (Dir _) \<Rightarrow> True | Some Unreadable_dir \<Rightarrow> True | _ \<Rightarrow> False)"

definition os_path_isfile :: "filesystem \<Rightarrow> string \<Rightarrow> bool" where
  "os_path_isfile fs p = (fs p = Some File)"

definition os_listdir :: "filesystem \<Rightarrow> string \<Rightarrow> exn + string list" where
  "os_listdir fs p =
     (case fs p of
        Some (Dir fnames) \<Rightarrow> Inr fnames
      | Some Unreadable_dir \<Rightarrow> Inl (Exception ''PermissionError'')
      | Some _ \<Rightarrow> Inl (Exception ''NotADirectoryError'')
      | None \<Rightarrow> Inl (Exception ''FileNotFoundError''))"

text \<open>The inner loop: the entries of one directory that are regular files.\<close>

fun scan_dir :: "filesystem \<Rightarrow> string \<Rightarrow> string list \<Rightarrow> string list \<Rightarrow> string list" where
  "scan_dir fs filepath [] f_list = f_list"
| "scan_dir fs filepath (fname # fnames) f_list =
     (let fpath = os_path_join filepath fname in
      if os_path_isfile fs fpath then scan_dir fs filepath fnames (f_list @ [fpath])
      else scan_dir fs filepath fnames f_list)"

text \<open>The first loop, over the configured paths; it ends early if \<open>listdir\<close> raises.\<close>

fun scan_paths :: "filesystem \<Rightarrow> string list \<Rightarrow> string list \<Rightarrow> exn + string list" where
  "scan_paths fs [] f_list = Inr f_list"
| "scan_paths fs (filepath # fuo_files) f_list =
     (if \<not> os_path_exists fs filepath then scan_paths fs fuo_files f_list
      else if os_path_isdir fs filepath then
        (case os_listdir fs filepath of
           Inl e \<Rightarrow> Inl e
         | Inr fnames \<Rightarrow> scan_paths fs fuo_files (scan_dir fs filepath fnames f_list))
      else scan_paths fs fuo_files (f_list @ [filepath]))"

text \<open>
  The second loop. Its only statement past the test assigns the local \<open>name\<close>; the
  function gives, in order, the iterations that reach the assignment: the path
  recognized and the name derived from it.
\<close>

fun scan_names :: "string list \<Rightarrow> (string \<times> string) list" where
  "scan_names [] = []"
| "scan_names (fpath # f_list) =
     (let basename = os_path_basename fpath in
      if \<not> endswith basename ''.fuo'' then scan_names f_list
      else (fpath, rsplit_dot_head basename) # scan_names f_list)"

text \<open>
  The method: \<open>config.FUO_FILES\<close> is its input. It returns \<open>None\<close>, and what its
  loops found lives in its local variables only, which are dropped when it returns. So
  that what the loops found can be stated, the model gives three things: what the
  caller gets (\<open>None\<close>, or the exception of a \<open>listdir\<close>), the shell as the method
  leaves it, and the frame of the method at its last statement: \<open>f_list\<close> as the first
  loop left it (\<open>collected\<close>) and, for every iteration of the second loop that reached
  the assignment, the path \<open>fpath\<close> and the value given to \<open>name\<close> (\<open>assigned\<close>).
  There is no frame to look at when an exception leaves the method.
\<close>

record scan_locals =
  collected :: "string list"
  assigned :: "(string \<times> string) list"

definition scan_fuo_files ::
  "filesystem \<Rightarrow> string list \<Rightarrow> shell \<Rightarrow> (exn + unit) \<times> shell \<times> scan_locals option" where
  "scan_fuo_files fs fuo_files sh =
     (case scan_paths fs fuo_files [] of
        Inl e \<Rightarrow> (Inl e, sh, None)
      | Inr f_list \<Rightarrow>
          (Inr (), sh, Some \<lparr>collected = f_list, assigned = scan_names f_list\<rparr>))"

subsection \<open>pixmap\_from\_url\<close>

text \<open>
  \<^verbatim>\<open>
  def pixmap_from_url(self, url, callback=None):
      # FIXME: only neteasemusic img url accept the params
      data = {'param': '{0}y{0}'.format(self.width())}
      res = self.request.get(url, data)
      if res is None:
          return None
      img = QImage()
      img.loadFromData(res.content)
      pixmap = QPixmap(img)
      if pixmap.isNull():
          return None
      if callback is not None:
          callback(pixmap)
      return pixmap
  \<close>
  \<open>QImage.loadFromData\<close> leaves a null image when the bytes do not decode, and the
  pixmap of a null image is null. The decoder is a parameter (\<open>None\<close>: the bytes do not
  decode), and so is \<open>request.get\<close>, which returns a response, returns \<open>None\<close>, or
  raises. The callback is any callable: it may change the state of whatever it
  closes over (\<open>'w\<close>) and may raise.
\<close>

record response =
  content :: string

datatype 'd QImage = Null_QImage | QImage 'd

datatype 'd QPixmap = Null_QPixmap | QPixmap 'd

definition loadFromData :: "(string \<Rightarrow> 'd option) \<Rightarrow> string \<Rightarrow> 'd QImage" where
  "loadFromData decode bytes = (case decode bytes of None \<Rightarrow> Null_QImage | Some d \<Rightarrow> QImage d)"

fun QPixmap_of :: "'d QImage \<Rightarrow> 'd QPixmap" where
  "QPixmap_of Null_QImage = Null_QPixmap"
| "QPixmap_of (QImage d) = QPixmap d"

fun isNull :: "'d QPixmap \<Rightarrow> bool" where
  "isNull Null_QPixmap = True"
| "isNull (QPixmap _) = False"

definition pixmap_from_url ::
  "(string \<Rightarrow> (string \<times> string) list \<Rightarrow> exn + response option) \<Rightarrow> (string \<Rightarrow> 'd option) \<Rightarrow>
   shell \<Rightarrow> string \<Rightarrow> ('d QPixmap \<Rightarrow> 'w \<Rightarrow> exn option \<times> 'w) option \<Rightarrow> 'w \<Rightarrow>
   (exn + 'd QPixmap option) \<times> 'w" where
  "pixmap_from_url request_get decode self url callback w =
     (let data = [(''param'', str_int (width self) @ ''y'' @ str_int (width self))] in
      case request_get url data of
        Inl e \<Rightarrow> (Inl e, w)
      | Inr None \<Rightarrow> (Inr None, w)
      | Inr (Some res) \<Rightarrow>
          (let pixmap = QPixmap_of (loadFromData decode (content res)) in
           if isNull pixmap then (Inr None, w)
           else
             (case callback of
                None \<Rightarrow> (Inr (Some pixmap), w)
              | Some cb \<Rightarrow>
                  (case cb pixmap w of
                     (Some e, w') \<Rightarrow> (Inl e, w')
                   | (None, w') \<Rightarrow> (Inr (Some pixmap), w')))))"

subsection \<open>Example inputs\<close>

text \<open>
  Concrete inputs on which the theorems below are run: a shell that has made no call
  yet; a block interrupted from the keyboard; a block that reports half of its work
  and then fails; a request that gets no response and one that answers with the bytes
  of the url itself; a decoder that accepts the bytes that begin with \<open>PNG\<close>; a
  callback that counts its calls; a file system with the paths of the scan example; and
  one where the directory \<open>/d\<close> holds a playlist, a subdirectory with a playlist of
  its own, and a file of another kind.
\<close>

definition shell0 :: shell where
  "shell0 = \<lparr>width = 1000, player_pixmap = None, events = []\<rparr>"

definition interrupted_block :: "Action \<Rightarrow> shell \<Rightarrow> (exn + unit) \<times> shell" where
  "interrupted_block action sh = (Inl (BaseException ''KeyboardInterrupt''), sh)"

definition failing_block :: "Action \<Rightarrow> shell \<Rightarrow> (exn + unit) \<times> shell" where
  "failing_block action sh = (Inl (Exception ''ValueError''), set_progress action 50 sh)"

definition no_response :: "string \<Rightarrow> (string \<times> string) list \<Rightarrow> exn + response option" where
  "no_response url data = Inr None"

definition echo_response :: "string \<Rightarrow> (string \<times> string) list \<Rightarrow> exn + response option" where
  "echo_response url data = Inr (Some \<lparr>content = url\<rparr>)"

definition decode_png :: "string \<Rightarrow> string option" where
  "decode_png bytes = (if startswith bytes ''PNG'' then Some bytes else None)"

definition count_callback :: "string QPixmap \<Rightarrow> nat \<Rightarrow> exn option \<times> nat" where
  "count_callback pixmap n = (None, Suc n)"

definition example_fs :: filesystem where
  "example_fs = map_of
     [(''/a'', Dir [''b.fuo'']), (''/a/b.fuo'', File),
      (''/dir'', Dir [''d.txt'', ''c.fuo'']), (''/dir/c.fuo'', File), (''/dir/d.txt'', File)]"

definition nested_fs :: filesystem where
  "nested_fs = map_of
     [(''/d'', Dir [''x.fuo'', ''sub'', ''notes.md'']), (''/d/x.fuo'', File),
      (''/d/sub'', Dir [''y.fuo'']), (''/d/sub/y.fuo'', File), (''/d/notes.md'', File)]"

text \<open>
  To observe how often a callback is invoked, and with what, \<open>recorded cb\<close> behaves as
  \<open>cb\<close> does and also appends its argument to a list of the calls made.
\<close>

definition recorded ::
  "('p \<Rightarrow> 'w \<Rightarrow> exn option \<times> 'w) \<Rightarrow> 'p \<Rightarrow> 'p list \<times> 'w \<Rightarrow> exn option \<times> 'p list \<times> 'w" where
  "recorded cb p cw = (case cw of (calls, w) \<Rightarrow> case cb p w of (r, w') \<Rightarrow> (r, calls @ [p], w'))"

section \<open>Properties\<close>

subsection \<open>closeEvent\<close>

text \<open>
  C1 (as stated): every close event invokes player stop and then player shutdown,
  whether or not either raises, and then requests termination. This fails on the code:
  both calls stand in one \<open>try\<close> block, so an exception raised by \<open>stop\<close> skips
  \<open>shutdown\<close>. With a player whose \<open>stop\<close> raises a \<open>RuntimeError\<close>, the shell calls
  \<open>stop\<close>, then \<open>QApplication.quit()\<close>, and never \<open>shutdown\<close>.
\<close>

theorem closeEvent_stop_raises_skips_shutdown:
  "closeEvent \<lparr>stop = Some (Exception ''RuntimeError''), shutdown = None\<rparr>
       \<lparr>width = 1000, player_pixmap = None, events = []\<rparr>
     = (Inr (), \<lparr>width = 1000, player_pixmap = None,
                 events = [Player_stop, QApplication_quit]\<rparr>)"
  by (simp add: closeEvent_def teardown_def emit_def)

text \<open>
  C1 (amended): closeEvent always invokes player stop first; it invokes player shutdown
  next exactly when stop returned; when neither call raises, or the exception raised is
  an instance of \<open>Exception\<close>, the exception is suppressed, termination is requested
  last and closeEvent returns; an exception outside \<open>Exception\<close> leaves closeEvent
  with no termination request. Nothing else is called and no attribute changes.
\<close>

theorem closeEvent_calls:
  "closeEvent p sh =
     (let calls = (if stop p = None then [Player_stop, Player_shutdown] else [Player_stop]);
          raised = (if stop p = None then shutdown p else stop p)
      in case raised of
           None \<Rightarrow> (Inr (), sh\<lparr>events := events sh @ calls @ [QApplication_quit]\<rparr>)
         | Some e \<Rightarrow>
             if isinstance_Exception e
             then (Inr (), sh\<lparr>events := events sh @ calls @ [QApplication_quit]\<rparr>)
             else (Inl e, sh\<lparr>events := events sh @ calls\<rparr>))"
proof (cases "stop p")
  case None
  then show ?thesis
    by (cases "shutdown p") (simp_all add: closeEvent_def teardown_def emit_def)
next
  case (Some e)
  then show ?thesis
    by (simp add: closeEvent_def teardown_def emit_def)
qed

subsection \<open>create\_action\<close>

text \<open>
  C2 (as stated): a block that raises any exception gets the message \<open>X...error\<close>.
  This fails on the code for the exceptions that \<open>except Exception\<close> does not catch:
  a block interrupted by \<open>KeyboardInterrupt\<close> leaves the \<open>with\<close> statement with the
  start message as the only message shown.
\<close>

theorem create_action_interrupted:
  "create_action ''X'' interrupted_block shell0 =
     (Inl (BaseException ''KeyboardInterrupt''),
      \<lparr>width = 1000, player_pixmap = None, events = [Show_msg ''X...'' (Some (- 1))]\<rparr>)"
  by (simp add: create_action_def interrupted_block_def shell0_def show_msg_def emit_def)

text \<open>
  C2 (amended): for every label \<open>s\<close> and every block, the start message \<open>s...\<close> is
  shown (with timeout \<open>-1\<close>) before the block runs; if the block completes, \<open>s...done\<close>
  is shown after it and its value is the result; if the block raises an instance of
  \<open>Exception\<close>, \<open>s...error\<close> is shown after it and the same exception leaves the
  \<open>with\<close> statement; an exception outside \<open>Exception\<close> leaves it too, with no message
  shown on exit. The premise names what the block does from the state it is entered in.
\<close>

theorem create_action_exit:
  assumes "body (Action s) (show_msg (s @ ''...'') (Some (- 1)) sh) = (r, sh2)"
  shows "events (show_msg (s @ ''...'') (Some (- 1)) sh)
           = events sh @ [Show_msg (s @ ''...'') (Some (- 1))] \<and>
         create_action s body sh =
           (case r of
              Inr v \<Rightarrow> (Inr v, sh2\<lparr>events := events sh2 @ [Show_msg (s @ ''...done'') None]\<rparr>)
            | Inl e \<Rightarrow>
                (Inl e,
                 if isinstance_Exception e
                 then sh2\<lparr>events := events sh2 @ [Show_msg (s @ ''...error'') None]\<rparr>
                 else sh2))"
  using assms
  by (simp add: create_action_def show_msg_def emit_def Let_def split: sum.splits)

text \<open>
  On a block that reports 50 percent and then raises a \<open>ValueError\<close>: the three
  messages, and the \<open>ValueError\<close> as the outcome.
\<close>

theorem create_action_exit_witness:
  "create_action ''X'' failing_block shell0 =
     (Inl (Exception ''ValueError''),
      \<lparr>width = 1000, player_pixmap = None,
        events = [Show_msg ''X...'' (Some (- 1)), Show_msg ''X...50%'' (Some (- 1)),
                  Show_msg ''X...error'' None]\<rparr>)"
proof -
  have fifty: "str_int 50 = ''50''"
    by code_simp
  show ?thesis
    using create_action_exit [of failing_block "''X''" shell0 "Inl (Exception ''ValueError'')"
        "\<lparr>width = 1000, player_pixmap = None,
           events = [Show_msg ''X...'' (Some (- 1)), Show_msg ''X...50%'' (Some (- 1))]\<rparr>"]
    by (simp add: failing_block_def shell0_def show_msg_def emit_def fifty)
qed

text \<open>
  C10: inside a \<open>create_action(s)\<close> block, \<open>failed()\<close> on the handle shows \<open>s...failed\<close>
  and leaves the exit alone: if the block then completes, \<open>s...done\<close> is shown after
  everything the block did. The block is any code \<open>pre\<close>, the call of \<open>failed\<close>, and
  any code \<open>post\<close> that completes with a value.
\<close>

theorem failed_then_done:
  assumes "post (failed (Action s) (pre (show_msg (s @ ''...'') (Some (- 1)) sh))) = (Inr v, sh3)"
  shows "(\<forall>sh'. events (failed (Action s) sh')
             = events sh' @ [Show_msg (s @ ''...failed'') (Some (- 1))]) \<and>
         create_action s (\<lambda>action sh1. post (failed action (pre sh1))) sh
           = (Inr v, sh3\<lparr>events := events sh3 @ [Show_msg (s @ ''...done'') None]\<rparr>)"
  using assms
  by (simp add: create_action_def show_msg_def emit_def Let_def)

text \<open>With a block that only calls \<open>failed()\<close>: start, failed, done, in this order.\<close>

theorem failed_then_done_witness:
  "create_action ''X'' (\<lambda>action sh1. (Inr (), failed action sh1)) shell0
     = (Inr (),
        \<lparr>width = 1000, player_pixmap = None,
          events = [Show_msg ''X...'' (Some (- 1)), Show_msg ''X...failed'' (Some (- 1)),
                    Show_msg ''X...done'' None]\<rparr>)"
  using failed_then_done [of "\<lambda>sh. (Inr (), sh)" "''X''" "\<lambda>sh. sh" shell0 "()"
      "\<lparr>width = 1000, player_pixmap = None,
         events = [Show_msg ''X...'' (Some (- 1)), Show_msg ''X...failed'' (Some (- 1))]\<rparr>"]
  by (simp add: shell0_def show_msg_def emit_def)

subsection \<open>The handlers of the player's signals\<close>

text \<open>
  C5: the position handler forwards \<open>ms * 1000\<close>, and nothing else, to the two position
  updates of the panel, and the duration handler does the same to the two duration
  updates; the input 5 is forwarded as 5000. This holds for every integer, the
  non-negative ones among them.
\<close>

theorem position_duration_forwarded:
  "on_player_position_changed ms sh
     = sh\<lparr>events := events sh @ [On_position_changed (ms * 1000), Update_state (ms * 1000)]\<rparr> \<and>
   on_player_duration_changed ms sh
     = sh\<lparr>events := events sh @ [On_duration_changed (ms * 1000), Set_duration (ms * 1000)]\<rparr> \<and>
   on_player_position_changed 5 sh
     = sh\<lparr>events := events sh @ [On_position_changed 5000, Update_state 5000]\<rparr>"
  by (simp add: on_player_position_changed_def on_player_duration_changed_def emit_def)

text \<open>
  C6: under the mac theme the state handler sets no icon (it does nothing); otherwise
  it sets one icon, the pause icon when the state equals the playing state and the
  play icon for every other state.
\<close>

theorem status_icon:
  "on_player_status_changed use_mac_theme playing state sh =
     (if use_mac_theme then sh
      else sh\<lparr>events := events sh @
                 [SetIcon (if state = playing then SP_MediaPause else SP_MediaPlay)]\<rparr>)"
  by (simp add: on_player_status_changed_def emit_def)

subsection \<open>load\_qss\<close>

text \<open>
  C7: without the mac theme \<open>load_qss\<close> returns with the state as it was; with it, the
  text of \<open>mac.qss\<close> beside the module is read and set as the stylesheet of the
  application, and nothing else happens; and whenever a call changes the state, the
  theme condition held. (The second part is about a file that can be opened: \<open>open\<close>
  raises otherwise, before anything is written.)
\<close>

theorem load_qss_gate:
  "load_qss False filepath files sh = (Inr (), sh) \<and>
   (files (os_path_join (os_path_dirname filepath) ''mac.qss'') = Some s \<longrightarrow>
      load_qss True filepath files sh
        = (Inr (), sh\<lparr>events := events sh @ [SetStyleSheet s]\<rparr>)) \<and>
   (snd (load_qss use_mac_theme filepath files sh) \<noteq> sh \<longrightarrow> use_mac_theme)"
  by (simp add: load_qss_def emit_def Let_def split: option.splits)

text \<open>With the module installed at \<open>/usr/lib/feeluown/app.py\<close> and the theme on.\<close>

theorem load_qss_gate_witness:
  "load_qss True ''/usr/lib/feeluown/app.py''
       (map_of [(''/usr/lib/feeluown/mac.qss'', ''QWidget {}'')]) shell0
     = (Inr (), \<lparr>width = 1000, player_pixmap = None, events = [SetStyleSheet ''QWidget {}'']\<rparr>) \<and>
   snd (load_qss True ''/usr/lib/feeluown/app.py''
       (map_of [(''/usr/lib/feeluown/mac.qss'', ''QWidget {}'')]) shell0) \<noteq> shell0"
  using load_qss_gate [where filepath = "''/usr/lib/feeluown/app.py''" and sh = shell0
      and files = "map_of [(''/usr/lib/feeluown/mac.qss'', ''QWidget {}'')]"
      and s = "''QWidget {}''" and use_mac_theme = True]
  by (simp add: shell0_def os_path_dirname_def os_path_join_def startswith_def endswith_def)

subsection \<open>scan\_fuo\_files\<close>

text \<open>What the two loops collect, as sets.\<close>

lemma set_scan_dir:
  "set (scan_dir fs filepath fnames f_list) =
     set f_list \<union> {os_path_join filepath fname | fname.
        fname \<in> set fnames \<and> os_path_isfile fs (os_path_join filepath fname)}"
  by (induction fnames arbitrary: f_list) (auto simp: Let_def)

lemma set_scan_names:
  "set (scan_names f_list) =
     {(fpath, rsplit_dot_head (os_path_basename fpath)) | fpath.
        fpath \<in> set f_list \<and> endswith (os_path_basename fpath) ''.fuo''}"
  by (induction f_list) (auto simp: Let_def)

text \<open>
  The first loop over any list of configured paths none of which is a directory that
  may not be listed: it ends without an exception, and collects the paths that exist
  and are not directories, and the regular files that are entries of the directories.
\<close>

lemma plain_Cons:
  "{p \<in> set (x # xs). P p} = (if P x then {x} else {}) \<union> {p \<in> set xs. P p}"
  by auto

lemma entries_Cons:
  "{J d f | d f fnames. d \<in> set (x # xs) \<and> fs d = Some (Dir fnames) \<and> f \<in> set fnames \<and> Q (J d f)}
     = {J x f | f fnames. fs x = Some (Dir fnames) \<and> f \<in> set fnames \<and> Q (J x f)}
       \<union> {J d f | d f fnames. d \<in> set xs \<and> fs d = Some (Dir fnames) \<and> f \<in> set fnames \<and> Q (J d f)}"
  by auto

lemma scan_paths_collects:
  assumes "\<forall>filepath \<in> set fuo_files. fs filepath \<noteq> Some Unreadable_dir"
  shows "\<exists>f_list. scan_paths fs fuo_files acc = Inr f_list \<and>
           set f_list = set acc
             \<union> {filepath \<in> set fuo_files.
                  os_path_exists fs filepath \<and> \<not> os_path_isdir fs filepath}
             \<union> {os_path_join filepath fname | filepath fname fnames.
                  filepath \<in> set fuo_files \<and> fs filepath = Some (Dir fnames) \<and>
                  fname \<in> set fnames \<and> os_path_isfile fs (os_path_join filepath fname)}"
  using assms
proof (induction fuo_files arbitrary: acc)
  case Nil
  show ?case by simp
next
  case (Cons filepath rest)
  have rest_ok: "\<forall>p \<in> set rest. fs p \<noteq> Some Unreadable_dir"
    using Cons.prems by simp
  have here: "fs filepath \<noteq> Some Unreadable_dir"
    using Cons.prems by simp
  consider (absent) "fs filepath = None"
    | (dir) fnames where "fs filepath = Some (Dir fnames)"
    | (plain) "fs filepath = Some File \<or> fs filepath = Some Special"
    using here by (cases "fs filepath") (auto intro: node.exhaust)
  then show ?case
  proof cases
    case absent
    then have ex: "\<not> os_path_exists fs filepath"
      and nodir: "\<And>fnames. fs filepath \<noteq> Some (Dir fnames)"
      by (simp_all add: os_path_exists_def)
    have step: "scan_paths fs (filepath # rest) acc = scan_paths fs rest acc"
      using ex by simp
    obtain f_list where "scan_paths fs rest acc = Inr f_list"
      and "set f_list = set acc
             \<union> {filepath \<in> set rest. os_path_exists fs filepath \<and> \<not> os_path_isdir fs filepath}
             \<union> {os_path_join filepath fname | filepath fname fnames.
                  filepath \<in> set rest \<and> fs filepath = Some (Dir fnames) \<and>
                  fname \<in> set fnames \<and> os_path_isfile fs (os_path_join filepath fname)}"
      using Cons.IH [OF rest_ok, of acc] by blast
    then show ?thesis
      unfolding step plain_Cons entries_Cons using ex nodir by simp
  next
    case dir
    then have ex: "os_path_exists fs filepath" and isd: "os_path_isdir fs filepath"
      and ls: "os_listdir fs filepath = Inr fnames"
      by (simp_all add: os_path_exists_def os_path_isdir_def os_listdir_def)
    have step: "scan_paths fs (filepath # rest) acc
                  = scan_paths fs rest (scan_dir fs filepath fnames acc)"
      using ex isd ls by simp
    have entries: "{os_path_join filepath f | f fnames'. fs filepath = Some (Dir fnames') \<and>
                      f \<in> set fnames' \<and> os_path_isfile fs (os_path_join filepath f)}
                   = {os_path_join filepath f | f. f \<in> set fnames \<and>
                      os_path_isfile fs (os_path_join filepath f)}"
      using dir by auto
    obtain f_list where "scan_paths fs rest (scan_dir fs filepath fnames acc) = Inr f_list"
      and "set f_list = set (scan_dir fs filepath fnames acc)
             \<union> {filepath \<in> set rest. os_path_exists fs filepath \<and> \<not> os_path_isdir fs filepath}
             \<union> {os_path_join filepath fname | filepath fname fnames.
                  filepath \<in> set rest \<and> fs filepath = Some (Dir fnames) \<and>
                  fname \<in> set fnames \<and> os_path_isfile fs (os_path_join filepath fname)}"
      using Cons.IH [OF rest_ok, of "scan_dir fs filepath fnames acc"] by blast
    then show ?thesis
      unfolding step plain_Cons entries_Cons entries set_scan_dir using isd
      by (simp add: Un_ac)
  next
    case plain
    then have ex: "os_path_exists fs filepath" and isd: "\<not> os_path_isdir fs filepath"
      and nodir: "\<And>fnames. fs filepath \<noteq> Some (Dir fnames)"
      by (auto simp: os_path_exists_def os_path_isdir_def)
    have step: "scan_paths fs (filepath # rest) acc = scan_paths fs rest (acc @ [filepath])"
      using ex isd by simp
    obtain f_list where "scan_paths fs rest (acc @ [filepath]) = Inr f_list"
      and "set f_list = set (acc @ [filepath])
             \<union> {filepath \<in> set rest. os_path_exists fs filepath \<and> \<not> os_path_isdir fs filepath}
             \<union> {os_path_join filepath fname | filepath fname fnames.
                  filepath \<in> set rest \<and> fs filepath = Some (Dir fnames) \<and>
                  fname \<in> set fnames \<and> os_path_isfile fs (os_path_join filepath fname)}"
      using Cons.IH [OF rest_ok, of "acc @ [filepath]"] by blast
    then show ?thesis
      unfolding step plain_Cons entries_Cons using ex isd nodir by (simp add: Un_ac)
  qed
qed

text \<open>The loops on the example of the claim.\<close>

lemma set_scan_dir_two:
  assumes "set fnames = {x, y}"
    and "os_path_isfile fs (os_path_join filepath x)"
    and "os_path_isfile fs (os_path_join filepath y)"
  shows "set (scan_dir fs filepath fnames f_list) =
           set f_list \<union> {os_path_join filepath x, os_path_join filepath y}"
  unfolding set_scan_dir using assms by auto

lemma set_scan_names_three:
  assumes "set f_list = {p, q, r}"
    and "endswith (os_path_basename p) ''.fuo''"
    and "endswith (os_path_basename q) ''.fuo''"
    and "\<not> endswith (os_path_basename r) ''.fuo''"
  shows "set (scan_names f_list) =
           {(p, rsplit_dot_head (os_path_basename p)), (q, rsplit_dot_head (os_path_basename q))}"
  unfolding set_scan_names using assms by auto

lemma scan_example_paths:
  assumes "fs ''/a/b.fuo'' = Some File"
    and "fs ''/missing'' = None"
    and "fs ''/dir'' = Some (Dir fnames)"
    and "set fnames = {''c.fuo'', ''d.txt''}"
    and "fs ''/dir/c.fuo'' = Some File"
    and "fs ''/dir/d.txt'' = Some File"
  shows "scan_paths fs [''/a/b.fuo'', ''/missing'', ''/dir''] []
           = Inr (scan_dir fs ''/dir'' fnames [''/a/b.fuo''])"
    and "set (scan_dir fs ''/dir'' fnames [''/a/b.fuo''])
           = {''/a/b.fuo'', ''/dir/c.fuo'', ''/dir/d.txt''}"
    and "set (scan_names (scan_dir fs ''/dir'' fnames [''/a/b.fuo'']))
           = {(''/a/b.fuo'', ''b''), (''/dir/c.fuo'', ''c'')}"
proof -
  show paths: "scan_paths fs [''/a/b.fuo'', ''/missing'', ''/dir''] []
                 = Inr (scan_dir fs ''/dir'' fnames [''/a/b.fuo''])"
    using assms(1-3)
    by (simp add: os_path_exists_def os_path_isdir_def os_listdir_def)
  have j: "os_path_join ''/dir'' ''c.fuo'' = ''/dir/c.fuo''"
          "os_path_join ''/dir'' ''d.txt'' = ''/dir/d.txt''"
    by (simp_all add: os_path_join_def startswith_def endswith_def)
  show files: "set (scan_dir fs ''/dir'' fnames [''/a/b.fuo''])
                 = {''/a/b.fuo'', ''/dir/c.fuo'', ''/dir/d.txt''}"
    using set_scan_dir_two [OF assms(4), of fs "''/dir''" "[''/a/b.fuo'']"] assms(5,6)
    unfolding j os_path_isfile_def by (simp add: insert_commute)
  have b: "os_path_basename ''/a/b.fuo'' = ''b.fuo''"
          "os_path_basename ''/dir/c.fuo'' = ''c.fuo''"
          "os_path_basename ''/dir/d.txt'' = ''d.txt''"
    by (simp_all add: os_path_basename_def)
  have e: "endswith ''b.fuo'' ''.fuo''" "endswith ''c.fuo'' ''.fuo''"
          "\<not> endswith ''d.txt'' ''.fuo''"
    by (simp_all add: endswith_def)
  have n: "rsplit_dot_head ''b.fuo'' = ''b''" "rsplit_dot_head ''c.fuo'' = ''c''"
    by (simp_all add: rsplit_dot_head_def)
  show "set (scan_names (scan_dir fs ''/dir'' fnames [''/a/b.fuo'']))
          = {(''/a/b.fuo'', ''b''), (''/dir/c.fuo'', ''c'')}"
    using set_scan_names_three [OF files] e unfolding b n by blast
qed

text \<open>
  C3: \<open>scan_fuo_files\<close> recognizes these paths and no others. In general, when no
  configured path is a directory that may not be listed, the method returns \<open>None\<close>
  with the shell as it was, and at its end: \<open>f_list\<close> holds exactly the configured
  paths that exist and are not directories, and, for each configured path that is a
  directory, those of its entries (joined to it) that are regular files, so a path
  that does not exist adds nothing, and neither does an entry that is a directory or
  anything below one; and the assignment to \<open>name\<close> was reached exactly for the
  members of \<open>f_list\<close> whose basename ends with \<open>.fuo\<close>, with the basename up to its
  last dot as the name. On the example, with the configured paths \<open>/a/b.fuo\<close> (a
  file), \<open>/missing\<close> (not there) and \<open>/dir\<close> (a directory whose entries, in any
  order, are the files \<open>c.fuo\<close> and \<open>d.txt\<close>): \<open>f_list\<close> holds \<open>/a/b.fuo\<close>,
  \<open>/dir/c.fuo\<close> and \<open>/dir/d.txt\<close>, and the paths recognized are exactly
  \<open>/a/b.fuo\<close> and \<open>/dir/c.fuo\<close>, named \<open>b\<close> and \<open>c\<close>.
\<close>

theorem scan_fuo_files_recognizes:
  "((\<forall>filepath \<in> set fuo_files. fs filepath \<noteq> Some Unreadable_dir) \<longrightarrow>
      (\<exists>locals. scan_fuo_files fs fuo_files sh = (Inr (), sh, Some locals) \<and>
         set (collected locals) =
           {filepath \<in> set fuo_files.
              os_path_exists fs filepath \<and> \<not> os_path_isdir fs filepath}
           \<union> {os_path_join filepath fname | filepath fname fnames.
                filepath \<in> set fuo_files \<and> fs filepath = Some (Dir fnames) \<and>
                fname \<in> set fnames \<and> os_path_isfile fs (os_path_join filepath fname)} \<and>
         set (assigned locals) =
           {(fpath, rsplit_dot_head (os_path_basename fpath)) | fpath.
              fpath \<in> set (collected locals) \<and> endswith (os_path_basename fpath) ''.fuo''})) \<and>
   (fs ''/a/b.fuo'' = Some File \<and> fs ''/missing'' = None \<and> fs ''/dir'' = Some (Dir entries) \<and>
    set entries = {''c.fuo'', ''d.txt''} \<and>
    fs ''/dir/c.fuo'' = Some File \<and> fs ''/dir/d.txt'' = Some File \<longrightarrow>
      (\<exists>locals. scan_fuo_files fs [''/a/b.fuo'', ''/missing'', ''/dir''] sh
                   = (Inr (), sh, Some locals) \<and>
         set (collected locals) = {''/a/b.fuo'', ''/dir/c.fuo'', ''/dir/d.txt''} \<and>
         set (assigned locals) = {(''/a/b.fuo'', ''b''), (''/dir/c.fuo'', ''c'')} \<and>
         fst ` set (assigned locals) = {''/a/b.fuo'', ''/dir/c.fuo''}))"
proof (intro conjI impI)
  assume ok: "\<forall>filepath \<in> set fuo_files. fs filepath \<noteq> Some Unreadable_dir"
  from scan_paths_collects [OF ok, of "[]"]
  obtain f_list where run: "scan_paths fs fuo_files [] = Inr f_list"
    and coll: "set f_list = set []
           \<union> {filepath \<in> set fuo_files.
                os_path_exists fs filepath \<and> \<not> os_path_isdir fs filepath}
           \<union> {os_path_join filepath fname | filepath fname fnames.
                filepath \<in> set fuo_files \<and> fs filepath = Some (Dir fnames) \<and>
                fname \<in> set fnames \<and> os_path_isfile fs (os_path_join filepath fname)}"
    by (elim exE conjE)
  let ?locals = "\<lparr>collected = f_list, assigned = scan_names f_list\<rparr>"
  show "\<exists>locals. scan_fuo_files fs fuo_files sh = (Inr (), sh, Some locals) \<and>
         set (collected locals) =
           {filepath \<in> set fuo_files.
              os_path_exists fs filepath \<and> \<not> os_path_isdir fs filepath}
           \<union> {os_path_join filepath fname | filepath fname fnames.
                filepath \<in> set fuo_files \<and> fs filepath = Some (Dir fnames) \<and>
                fname \<in> set fnames \<and> os_path_isfile fs (os_path_join filepath fname)} \<and>
         set (assigned locals) =
           {(fpath, rsplit_dot_head (os_path_basename fpath)) | fpath.
              fpath \<in> set (collected locals) \<and> endswith (os_path_basename fpath) ''.fuo''}"
  proof (intro exI conjI)
    show "scan_fuo_files fs fuo_files sh = (Inr (), sh, Some ?locals)"
      using run by (simp add: scan_fuo_files_def)
    show "set (collected ?locals) =
           {filepath \<in> set fuo_files.
              os_path_exists fs filepath \<and> \<not> os_path_isdir fs filepath}
           \<union> {os_path_join filepath fname | filepath fname fnames.
                filepath \<in> set fuo_files \<and> fs filepath = Some (Dir fnames) \<and>
                fname \<in> set fnames \<and> os_path_isfile fs (os_path_join filepath fname)}"
      using coll by simp
    show "set (assigned ?locals) =
           {(fpath, rsplit_dot_head (os_path_basename fpath)) | fpath.
              fpath \<in> set (collected ?locals) \<and> endswith (os_path_basename fpath) ''.fuo''}"
      by (simp add: set_scan_names)
  qed
next
  assume scenario: "fs ''/a/b.fuo'' = Some File \<and> fs ''/missing'' = None \<and>
    fs ''/dir'' = Some (Dir entries) \<and> set entries = {''c.fuo'', ''d.txt''} \<and>
    fs ''/dir/c.fuo'' = Some File \<and> fs ''/dir/d.txt'' = Some File"
  note h = scenario [THEN conjunct1] scenario [THEN conjunct2, THEN conjunct1]
    scenario [THEN conjunct2, THEN conjunct2, THEN conjunct1]
    scenario [THEN conjunct2, THEN conjunct2, THEN conjunct2, THEN conjunct1]
    scenario [THEN conjunct2, THEN conjunct2, THEN conjunct2, THEN conjunct2, THEN conjunct1]
    scenario [THEN conjunct2, THEN conjunct2, THEN conjunct2, THEN conjunct2, THEN conjunct2]
  let ?f_list = "scan_dir fs ''/dir'' entries [''/a/b.fuo'']"
  let ?locals = "\<lparr>collected = ?f_list, assigned = scan_names ?f_list\<rparr>"
  note ex = scan_example_paths [OF h]
  show "\<exists>locals. scan_fuo_files fs [''/a/b.fuo'', ''/missing'', ''/dir''] sh
                   = (Inr (), sh, Some locals) \<and>
         set (collected locals) = {''/a/b.fuo'', ''/dir/c.fuo'', ''/dir/d.txt''} \<and>
         set (assigned locals) = {(''/a/b.fuo'', ''b''), (''/dir/c.fuo'', ''c'')} \<and>
         fst ` set (assigned locals) = {''/a/b.fuo'', ''/dir/c.fuo''}"
  proof (intro exI conjI)
    show "scan_fuo_files fs [''/a/b.fuo'', ''/missing'', ''/dir''] sh
            = (Inr (), sh, Some ?locals)"
      unfolding scan_fuo_files_def ex(1) by simp
    show "set (collected ?locals) = {''/a/b.fuo'', ''/dir/c.fuo'', ''/dir/d.txt''}"
      using ex(2) by simp
    show "set (assigned ?locals) = {(''/a/b.fuo'', ''b''), (''/dir/c.fuo'', ''c'')}"
      using ex(3) by simp
    show "fst ` set (assigned ?locals) = {''/a/b.fuo'', ''/dir/c.fuo''}"
      using ex(3) by simp
  qed
qed

text \<open>
  On the tree under \<open>/d\<close>, with \<open>/gone\<close> configured too: the playlist \<open>/d/x.fuo\<close> is
  recognized; \<open>/d/notes.md\<close> is collected and not recognized; the subdirectory
  \<open>/d/sub\<close> and the playlist below it are not even collected. And on the example file
  system, where \<open>listdir\<close> gives \<open>d.txt\<close> before \<open>c.fuo\<close>.
\<close>

theorem scan_fuo_files_recognizes_witness:
  "scan_fuo_files nested_fs [''/d'', ''/gone''] shell0
     = (Inr (), shell0,
        Some \<lparr>collected = [''/d/x.fuo'', ''/d/notes.md''], assigned = [(''/d/x.fuo'', ''x'')]\<rparr>) \<and>
   {filepath \<in> set [''/d'', ''/gone''].
      os_path_exists nested_fs filepath \<and> \<not> os_path_isdir nested_fs filepath}
   \<union> {os_path_join filepath fname | filepath fname fnames.
        filepath \<in> set [''/d'', ''/gone''] \<and> nested_fs filepath = Some (Dir fnames) \<and>
        fname \<in> set fnames \<and> os_path_isfile nested_fs (os_path_join filepath fname)}
     = {''/d/x.fuo'', ''/d/notes.md''} \<and>
   (\<exists>locals. scan_fuo_files example_fs [''/a/b.fuo'', ''/missing'', ''/dir''] shell0
                = (Inr (), shell0, Some locals) \<and>
      set (collected locals) = {''/a/b.fuo'', ''/dir/c.fuo'', ''/dir/d.txt''} \<and>
      set (assigned locals) = {(''/a/b.fuo'', ''b''), (''/dir/c.fuo'', ''c'')} \<and>
      fst ` set (assigned locals) = {''/a/b.fuo'', ''/dir/c.fuo''})"
proof (intro conjI)
  note general = scan_fuo_files_recognizes
    [where fs = nested_fs and fuo_files = "[''/d'', ''/gone'']" and sh = shell0,
     THEN conjunct1, THEN mp]
  note example = scan_fuo_files_recognizes
    [where fs = example_fs and entries = "[''d.txt'', ''c.fuo'']" and sh = shell0,
     THEN conjunct2, THEN mp]
  show run: "scan_fuo_files nested_fs [''/d'', ''/gone''] shell0
     = (Inr (), shell0,
        Some \<lparr>collected = [''/d/x.fuo'', ''/d/notes.md''], assigned = [(''/d/x.fuo'', ''x'')]\<rparr>)"
    by code_simp
  have ok: "\<forall>filepath \<in> set [''/d'', ''/gone'']. nested_fs filepath \<noteq> Some Unreadable_dir"
    by (simp add: nested_fs_def)
  from general [OF ok]
  obtain locals where l: "scan_fuo_files nested_fs [''/d'', ''/gone''] shell0
                = (Inr (), shell0, Some locals)"
    and c: "set (collected locals) =
      {filepath \<in> set [''/d'', ''/gone''].
         os_path_exists nested_fs filepath \<and> \<not> os_path_isdir nested_fs filepath}
      \<union> {os_path_join filepath fname | filepath fname fnames.
           filepath \<in> set [''/d'', ''/gone''] \<and> nested_fs filepath = Some (Dir fnames) \<and>
           fname \<in> set fnames \<and> os_path_isfile nested_fs (os_path_join filepath fname)}"
    by (elim exE conjE)
  from l have "collected locals = [''/d/x.fuo'', ''/d/notes.md'']"
    unfolding run by auto
  then show "{filepath \<in> set [''/d'', ''/gone''].
      os_path_exists nested_fs filepath \<and> \<not> os_path_isdir nested_fs filepath}
   \<union> {os_path_join filepath fname | filepath fname fnames.
        filepath \<in> set [''/d'', ''/gone''] \<and> nested_fs filepath = Some (Dir fnames) \<and>
        fname \<in> set fnames \<and> os_path_isfile nested_fs (os_path_join filepath fname)}
     = {''/d/x.fuo'', ''/d/notes.md''}"
    unfolding c [symmetric] by simp
  show "\<exists>locals. scan_fuo_files example_fs [''/a/b.fuo'', ''/missing'', ''/dir''] shell0
                = (Inr (), shell0, Some locals) \<and>
      set (collected locals) = {''/a/b.fuo'', ''/dir/c.fuo'', ''/dir/d.txt''} \<and>
      set (assigned locals) = {(''/a/b.fuo'', ''b''), (''/dir/c.fuo'', ''c'')} \<and>
      fst ` set (assigned locals) = {''/a/b.fuo'', ''/dir/c.fuo''}"
    by (rule example) (simp add: example_fs_def insert_commute)
qed

text \<open>
  C9: whatever the file system and the configured paths, \<open>scan_fuo_files\<close> leaves every
  attribute of the shell as it was and hands nothing back: it returns \<open>None\<close> (or is
  left by the exception of a \<open>listdir\<close>); the names derived in the second loop are
  dropped with the frame.
\<close>

theorem scan_fuo_files_frame:
  "(case scan_fuo_files fs fuo_files sh of (r, sh', locals) \<Rightarrow> (r, sh')) =
     (case scan_paths fs fuo_files [] of Inl e \<Rightarrow> Inl e | Inr f_list \<Rightarrow> Inr (), sh)"
  by (simp add: scan_fuo_files_def split: sum.splits)

subsection \<open>pixmap\_from\_url\<close>

text \<open>
  C4: for every url (and window width, callback and state), if the fetch returns no
  response then \<open>pixmap_from_url\<close> returns \<open>None\<close>; if it returns a response whose bytes
  do not decode, the image is null and \<open>pixmap_from_url\<close> returns \<open>None\<close>. In both
  cases the outcome is a returned value, not an exception, and the state is untouched.
\<close>

theorem pixmap_from_url_failures:
  "(request_get url [(''param'', str_int (width self) @ ''y'' @ str_int (width self))] = Inr None \<longrightarrow>
      pixmap_from_url request_get decode self url callback w = (Inr None, w)) \<and>
   (request_get url [(''param'', str_int (width self) @ ''y'' @ str_int (width self))]
        = Inr (Some res) \<and> decode (content res) = None \<longrightarrow>
      loadFromData decode (content res) = Null_QImage \<and>
      pixmap_from_url request_get decode self url callback w = (Inr None, w))"
  by (simp add: pixmap_from_url_def loadFromData_def Let_def)

text \<open>With no response, and with a response that is not an image.\<close>

theorem pixmap_from_url_failures_witness:
  "pixmap_from_url no_response decode_png shell0 ''http://img/1.png'' (Some count_callback) 0
     = (Inr None, 0) \<and>
   pixmap_from_url echo_response decode_png shell0 ''http://img/1.png'' (Some count_callback) 0
     = (Inr None, 0)"
  using pixmap_from_url_failures [where request_get = no_response
          and url = "''http://img/1.png''" and self = shell0 and decode = decode_png
          and callback = "Some count_callback" and w = 0]
        pixmap_from_url_failures [where request_get = echo_response
          and url = "''http://img/1.png''" and self = shell0 and decode = decode_png
          and res = "\<lparr>content = ''http://img/1.png''\<rparr>"
          and callback = "Some count_callback" and w = 0]
  by (simp add: no_response_def echo_response_def decode_png_def startswith_def)

text \<open>
  C8: when the fetch returns a response and its bytes decode to a pixmap that is not
  null, \<open>pixmap_from_url\<close> without a callback returns that pixmap and touches nothing;
  with a callback it invokes the callback exactly once, with that pixmap, and (the
  callback having returned) returns the same pixmap. On the two failure paths the
  callback is not invoked. The calls are those that \<open>recorded\<close> lists.
\<close>

theorem pixmap_from_url_callback:
  "(request_get url [(''param'', str_int (width self) @ ''y'' @ str_int (width self))]
        = Inr (Some res) \<and> decode (content res) = Some d \<longrightarrow>
      pixmap_from_url request_get decode self url None w = (Inr (Some (QPixmap d)), w) \<and>
      (cb (QPixmap d) w = (None, w') \<longrightarrow>
         pixmap_from_url request_get decode self url (Some (recorded cb)) (calls, w)
           = (Inr (Some (QPixmap d)), calls @ [QPixmap d], w'))) \<and>
   (request_get url [(''param'', str_int (width self) @ ''y'' @ str_int (width self))] = Inr None \<longrightarrow>
      pixmap_from_url request_get decode self url (Some (recorded cb)) (calls, w)
        = (Inr None, calls, w)) \<and>
   (request_get url [(''param'', str_int (width self) @ ''y'' @ str_int (width self))]
        = Inr (Some res) \<and> decode (content res) = None \<longrightarrow>
      pixmap_from_url request_get decode self url (Some (recorded cb)) (calls, w)
        = (Inr None, calls, w))"
  by (simp add: pixmap_from_url_def loadFromData_def recorded_def Let_def)

text \<open>
  With the counting callback: no callback, one call on success, and no call when there
  is no response or the bytes are not an image.
\<close>

theorem pixmap_from_url_callback_witness:
  "pixmap_from_url echo_response decode_png shell0 ''PNG1'' None (0::nat)
     = (Inr (Some (QPixmap ''PNG1'')), 0) \<and>
   pixmap_from_url echo_response decode_png shell0 ''PNG1'' (Some (recorded count_callback)) ([], 0)
     = (Inr (Some (QPixmap ''PNG1'')), [QPixmap ''PNG1''], 1) \<and>
   pixmap_from_url no_response decode_png shell0 ''PNG1'' (Some (recorded count_callback)) ([], 0)
     = (Inr None, [], 0) \<and>
   pixmap_from_url echo_response decode_png shell0 ''JPG1'' (Some (recorded count_callback)) ([], 0)
     = (Inr None, [], 0)"
  using pixmap_from_url_callback [where request_get = echo_response and url = "''PNG1''"
          and self = shell0 and decode = decode_png and res = "\<lparr>content = ''PNG1''\<rparr>"
          and d = "''PNG1''" and w = "0::nat" and cb = count_callback and w' = 1 and calls = "[]"]
        pixmap_from_url_callback [where request_get = no_response and url = "''PNG1''"
          and self = shell0 and decode = decode_png and w = "0::nat" and cb = count_callback
          and calls = "[]"]
        pixmap_from_url_callback [where request_get = echo_response and url = "''JPG1''"
          and self = shell0 and decode = decode_png and res = "\<lparr>content = ''JPG1''\<rparr>"
          and w = "0::nat" and cb = count_callback and calls = "[]"]
  by (simp add: no_response_def echo_response_def decode_png_def startswith_def
        count_callback_def)

end
